theory Spec2Isabelle
  imports Main
begin

section \<open>The sidebar configuration of the documentation website\<close>

text \<open>
  The module \<^verbatim>\<open>packages/website/sidebars.js\<close> holds one function,
  \<^verbatim>\<open>createLibraryReferenceStructure\<close>, and one object literal, \<^verbatim>\<open>sidebars\<close>,
  which it exports. Both are embedded here as HOL values over a datatype of JavaScript
  values.
\<close>

subsection \<open>JavaScript values\<close>

text \<open>
  The values the module builds and receives: \<^verbatim>\<open>undefined\<close>, \<^verbatim>\<open>null\<close>, booleans,
  strings, arrays and plain objects. An object is the list of its own properties in
  insertion order, as an object literal creates them. Numbers, symbols and functions do
  not occur in the module and are left out.
\<close>

datatype jsval =
    JUndefined
  | JNull
  | JBool bool
  | JStr string
  | JArr "jsval list"
  | JObj "(string \<times> jsval) list"

text \<open>The one exception the module can raise: spreading a value that is not iterable.\<close>

datatype error = TypeError

text \<open>
  \<^verbatim>\<open>a ?? b\<close>: the right operand when the left one is \<^verbatim>\<open>null\<close> or \<^verbatim>\<open>undefined\<close>,
  the left operand otherwise.
\<close>

fun nullish :: "jsval \<Rightarrow> jsval \<Rightarrow> jsval" where
  "nullish JUndefined b = b"
| "nullish JNull b = b"
| "nullish a b = a"

text \<open>
  \<^verbatim>\<open>...v\<close> inside an array literal iterates \<^verbatim>\<open>v\<close>. An array yields its elements in
  order and a string yields its characters as one-character strings (a \<^typ>\<open>char\<close>
  stands for one code point). \<^verbatim>\<open>undefined\<close>, \<^verbatim>\<open>null\<close>, booleans and plain objects
  have no iterator: the spread throws a \<^verbatim>\<open>TypeError\<close>.
\<close>

fun spread :: "jsval \<Rightarrow> error + jsval list" where
  "spread (JArr xs) = Inr xs"
| "spread (JStr s) = Inr (map (\<lambda>c. JStr [c]) s)"
| "spread v = Inl TypeError"

subsection \<open>The function createLibraryReferenceStructure\<close>

text \<open>
  \<^verbatim>\<open>
  function createLibraryReferenceStructure(libName, extra) {
    return {
      type: "category",
      label: "Reference",
      link: { type: "doc", id: `standard-library/${libName}/reference/index` },
      items: [
        { type: "autogenerated", dirName: `standard-library/${libName}/reference` },
        ...(extra ?? []),
      ],
    };
  }
  \<close>
  \<^verbatim>\<open>libName\<close> is declared a string (the file is type-checked: \<^verbatim>\<open>@ts-check\<close>,
  \<^verbatim>\<open>@param {string} libName\<close>), so the template literals are concatenations. \<^verbatim>\<open>extra\<close>
  is declared \<^verbatim>\<open>any[]\<close> and optional; the model takes any value for it, and a call
  that leaves the argument out binds it to \<^verbatim>\<open>undefined\<close>, that is \<^const>\<open>JUndefined\<close>.
\<close>

definition createLibraryReferenceStructure :: "string \<Rightarrow> jsval \<Rightarrow> error + jsval" where
  "createLibraryReferenceStructure libName extra =
     (case spread (nullish extra (JArr [])) of
        Inl e \<Rightarrow> Inl e
      | Inr xs \<Rightarrow>
          Inr (JObj
            [(''type'', JStr ''category''),
             (''label'', JStr ''Reference''),
             (''link'', JObj
                [(''type'', JStr ''doc''),
                 (''id'', JStr (''standard-library/'' @ libName @ ''/reference/index''))]),
             (''items'', JArr
                (JObj
                   [(''type'', JStr ''autogenerated''),
                    (''dirName'', JStr (''standard-library/'' @ libName @ ''/reference''))]
                 # xs))]))"

subsection \<open>The exported object\<close>

text \<open>
  The object literal \<^verbatim>\<open>sidebars\<close> (lines 28 to 145 of the module), which
  \<^verbatim>\<open>module.exports\<close> is set to. Its two calls of
  \<^verbatim>\<open>createLibraryReferenceStructure\<close> are evaluated in the order of the literal; an
  exception of either would end the evaluation of the module.
\<close>

definition sidebars :: "error + jsval" where
  "sidebars =
     (case createLibraryReferenceStructure ''rest'' JUndefined of
        Inl e \<Rightarrow> Inl e
      | Inr restReference \<Rightarrow>
     (case createLibraryReferenceStructure ''openapi''
             (JArr [JStr ''standard-library/openapi/diagnostics'']) of
        Inl e \<Rightarrow> Inl e
      | Inr openapiReference \<Rightarrow>
          Inr (JObj
            [(''docsSidebar'', JArr
               [JObj
                  [(''type'', JStr ''category''),
                   (''label'', JStr ''Introduction''),
                   (''items'', JArr
                      [JStr ''introduction/introduction'',
                       JStr ''introduction/installation'',
                       JStr ''introduction/usage'',
                       JStr ''introduction/style-guide'',
                       JStr ''introduction/formatter'',
                       JObj
                         [(''type'', JStr ''category''),
                          (''label'', JStr ''Configuration''),
                          (''items'', JArr
                             [JStr ''introduction/configuration/configuration'',
                              JStr ''introduction/configuration/tracing''])],
                       JStr ''introduction/releases'',
                       JStr ''introduction/faq''])],
                JObj
                  [(''type'', JStr ''category''),
                   (''label'', JStr ''Getting Started''),
                   (''items'', JArr
                      [JStr ''getting-started/getting-started'',
                       JStr ''getting-started/cadl-for-openapi-dev''])],
                JObj
                  [(''type'', JStr ''category''),
                   (''label'', JStr ''Language Basics''),
                   (''items'', JArr
                      [JStr ''language-basics/overview'',
                       JStr ''language-basics/imports'',
                       JStr ''language-basics/namespaces'',
                       JStr ''language-basics/decorators'',
                       JStr ''language-basics/scalars'',
                       JStr ''language-basics/models'',
                       JStr ''language-basics/operations'',
                       JStr ''language-basics/interfaces'',
                       JStr ''language-basics/templates'',
                       JStr ''language-basics/enums'',
                       JStr ''language-basics/unions'',
                       JStr ''language-basics/intersections'',
                       JStr ''language-basics/type-literals'',
                       JStr ''language-basics/aliases'',
                       JStr ''language-basics/type-relations''])],
                JObj
                  [(''type'', JStr ''category''),
                   (''label'', JStr ''Cadl Standard Library''),
                   (''items'', JArr
                      [JStr ''standard-library/built-in-types'',
                       JStr ''standard-library/built-in-decorators'',
                       JStr ''standard-library/projected-names'',
                       JObj
                         [(''type'', JStr ''category''),
                          (''label'', JStr ''Http And Rest''),
                          (''items'', JArr
                             [JStr ''standard-library/rest/overview'',
                              restReference,
                              JStr ''standard-library/rest/operations'',
                              JStr ''standard-library/rest/authentication'',
                              JStr ''standard-library/rest/resource-routing''])],
                       JObj
                         [(''type'', JStr ''category''),
                          (''label'', JStr ''OpenAPI''),
                          (''items'', JArr
                             [JStr ''standard-library/openapi/overview'',
                              openapiReference,
                              JStr ''standard-library/openapi/openapi''])]])],
                JObj
                  [(''type'', JStr ''category''),
                   (''label'', JStr ''Writing Cadl Libraries''),
                   (''items'', JArr
                      [JStr ''extending-cadl/basics'',
                       JStr ''extending-cadl/create-decorators'',
                       JStr ''extending-cadl/linters'',
                       JStr ''extending-cadl/emitters'',
                       JStr ''extending-cadl/writing-scaffolding-template''])],
                JObj
                  [(''type'', JStr ''category''),
                   (''label'', JStr ''Compiler Reference''),
                   (''link'', JObj
                      [(''type'', JStr ''doc''),
                       (''id'', JStr ''compiler/reference/index'')]),
                   (''items'', JArr
                      [JObj
                         [(''type'', JStr ''autogenerated''),
                          (''dirName'', JStr ''compiler'')]])],
                JObj
                  [(''type'', JStr ''category''),
                   (''label'', JStr ''Release Notes''),
                   (''collapsed'', JBool True),
                   (''link'', JObj
                      [(''type'', JStr ''generated-index''),
                       (''title'', JStr ''Release Notes''),
                       (''slug'', JStr ''/release-notes'')]),
                   (''items'', JArr
                      [JObj
                         [(''type'', JStr ''autogenerated''),
                          (''dirName'', JStr ''release-notes'')]])]])])))"

subsection \<open>Reading the tree\<close>

text \<open>
  \<^verbatim>\<open>v.k\<close> for an own property \<^verbatim>\<open>k\<close> of an object \<^verbatim>\<open>v\<close>; \<^const>\<open>None\<close> when
  \<^verbatim>\<open>v\<close> has no such property or is not an object. No literal of the module names a
  key twice, so the first entry of a key is its only one.
\<close>

fun own_property :: "jsval \<Rightarrow> string \<Rightarrow> jsval option" where
  "own_property (JObj fs) k = map_of fs k"
| "own_property v k = None"

text \<open>The array \<^verbatim>\<open>sidebars.docsSidebar\<close>: the top-level items of the sidebar.\<close>

definition docsSidebar :: "jsval list option" where
  "docsSidebar =
     (case sidebars of
        Inl e \<Rightarrow> None
      | Inr s \<Rightarrow> (case own_property s ''docsSidebar'' of Some (JArr xs) \<Rightarrow> Some xs | _ \<Rightarrow> None))"

text \<open>The child items of a node: the elements of its \<^verbatim>\<open>items\<close> array, if it has one.\<close>

fun children :: "jsval \<Rightarrow> jsval list" where
  "children (JObj fs) = (case map_of fs ''items'' of Some (JArr xs) \<Rightarrow> xs | _ \<Rightarrow> [])"
| "children v = []"

text \<open>
  A node and every node below it, parents before children, siblings in order. Only an
  object can have child items.
\<close>

function (sequential) tree_nodes :: "jsval \<Rightarrow> jsval list" where
  "tree_nodes (JObj fs) = JObj fs # concat (map tree_nodes (children (JObj fs)))"
| "tree_nodes v = [v]"
  by pat_completeness auto
termination
proof (relation "measure size")
  show "wf (measure (size :: jsval \<Rightarrow> nat))" by simp
next
  fix fs :: "(string \<times> jsval) list" and x :: jsval
  assume x: "x \<in> set (children (JObj fs))"
  define v where "v = JObj fs"
  have "size x < size v"
  proof (cases v)
    case (JObj fs)
    with x v_def have "\<exists>xs. map_of fs ''items'' = Some (JArr xs) \<and> x \<in> set xs"
      by (cases "map_of fs ''items''") (auto split: jsval.splits)
    then obtain xs where m: "map_of fs ''items'' = Some (JArr xs)" and xin: "x \<in> set xs"
      by blast
    from m have "(''items'', JArr xs) \<in> set fs" by (rule map_of_SomeD)
    then have "size (JArr xs) \<le> size_list (size_prod (\<lambda>_. 0) size) fs"
      by (induction fs) auto
    moreover from xin have "size x \<le> size_list size xs"
      by (induction xs) auto
    ultimately show ?thesis using JObj by simp
  qed (use v_def in auto)
  then show "(x, JObj fs) \<in> measure size" by (simp add: v_def)
qed

text \<open>The three kinds of node the tree is made of.\<close>

fun is_leaf :: "jsval \<Rightarrow> bool" where
  "is_leaf (JStr s) = True"
| "is_leaf v = False"

definition is_category :: "jsval \<Rightarrow> bool" where
  "is_category v \<longleftrightarrow>
     own_property v ''type'' = Some (JStr ''category'') \<and>
     (case own_property v ''label'' of Some (JStr l) \<Rightarrow> True | _ \<Rightarrow> False) \<and>
     (case own_property v ''link'' of None \<Rightarrow> True | Some (JObj lk) \<Rightarrow> True | _ \<Rightarrow> False) \<and>
     (case own_property v ''items'' of Some (JArr xs) \<Rightarrow> True | _ \<Rightarrow> False)"

definition is_autogenerated :: "jsval \<Rightarrow> bool" where
  "is_autogenerated v \<longleftrightarrow>
     own_property v ''type'' = Some (JStr ''autogenerated'') \<and>
     (case own_property v ''dirName'' of Some (JStr d) \<Rightarrow> True | _ \<Rightarrow> False)"

text \<open>The names of the own properties of an object, in insertion order.\<close>

fun property_names :: "jsval \<Rightarrow> string list" where
  "property_names (JObj fs) = map fst fs"
| "property_names v = []"

text \<open>
  The shape of a library's reference entry: a category labelled \<^verbatim>\<open>Reference\<close>, linked
  to the document \<^verbatim>\<open>standard-library/<libName>/reference/index\<close>, whose items are the
  autogenerated entry of the directory \<^verbatim>\<open>standard-library/<libName>/reference\<close>
  followed by the entries \<open>extra\<close>.
\<close>

definition is_reference_category :: "string \<Rightarrow> jsval list \<Rightarrow> jsval \<Rightarrow> bool" where
  "is_reference_category libName extra r \<longleftrightarrow>
     property_names r = [''type'', ''label'', ''link'', ''items''] \<and>
     own_property r ''type'' = Some (JStr ''category'') \<and>
     own_property r ''label'' = Some (JStr ''Reference'') \<and>
     (case own_property r ''link'' of
        Some lk \<Rightarrow>
          own_property lk ''type'' = Some (JStr ''doc'') \<and>
          own_property lk ''id''
            = Some (JStr (''standard-library/'' @ libName @ ''/reference/index''))
      | None \<Rightarrow> False) \<and>
     (case own_property r ''items'' of
        Some (JArr (a # rest)) \<Rightarrow>
          own_property a ''type'' = Some (JStr ''autogenerated'') \<and>
          own_property a ''dirName''
            = Some (JStr (''standard-library/'' @ libName @ ''/reference'')) \<and>
          rest = extra
      | _ \<Rightarrow> False)"

text \<open>Every node of the sidebar whose top-level items are \<open>roots\<close>.\<close>

definition sidebar_nodes :: "jsval list \<Rightarrow> jsval list" where
  "sidebar_nodes roots = concat (map tree_nodes roots)"

text \<open>
  Every list of siblings of that sidebar: the top-level list, and the child items of each
  node (a node without items contributes the empty list).
\<close>

definition sibling_lists :: "jsval list \<Rightarrow> jsval list list" where
  "sibling_lists roots = roots # map children (sidebar_nodes roots)"

subsection \<open>Objects on the heap\<close>

text \<open>
  The values above are trees. The module itself builds objects: every object literal and
  every array literal allocates a fresh object, and a variable holds a reference to it.
  The second model makes that explicit. A heap is the list of the objects allocated so
  far, an address is a position in it, and an expression is evaluated in a heap and
  returns a value and the heap it leaves, or throws.
\<close>

type_synonym addr = nat

datatype val = VUndefined | VNull | VBool bool | VStr string | VRef addr

datatype cell = CArr "val list" | CObj "(string \<times> val) list"

type_synonym heap = "cell list"

type_synonym 'a expr = "heap \<Rightarrow> error + ('a \<times> heap)"

text \<open>A primitive literal, or a variable holding the value \<open>v\<close>: no effect on the heap.\<close>

definition literal :: "val \<Rightarrow> val expr" where
  "literal v h = Inr (v, h)"

text \<open>Allocation: the new object gets the next address; no object of the heap changes.\<close>

definition alloc :: "cell \<Rightarrow> val expr" where
  "alloc c h = Inr (VRef (length h), h @ [c])"

text \<open>
  \<^verbatim>\<open>{ k1: e1, ..., kn: en }\<close>: the property values are evaluated from left to right,
  then the object is allocated. (The language creates the empty object first and adds the
  properties one by one; the literal's value escapes only when it is complete and no
  program can compare addresses, so the difference cannot be observed.)
\<close>

fun properties :: "(string \<times> val expr) list \<Rightarrow> (string \<times> val) list expr" where
  "properties [] h = Inr ([], h)"
| "properties ((k, e) # ps) h =
     (case e h of
        Inl x \<Rightarrow> Inl x
      | Inr (v, h1) \<Rightarrow>
          (case properties ps h1 of
             Inl x \<Rightarrow> Inl x
           | Inr (fs, h2) \<Rightarrow> Inr ((k, v) # fs, h2)))"

definition object_literal :: "(string \<times> val expr) list \<Rightarrow> val expr" where
  "object_literal ps h =
     (case properties ps h of Inl x \<Rightarrow> Inl x | Inr (fs, h1) \<Rightarrow> alloc (CObj fs) h1)"

text \<open>
  The values the iterator of \<open>v\<close> yields: the elements of an array, the characters of a
  string; anything else is not iterable. Every reference a program holds was allocated,
  so the branch of an address outside the heap is never taken.
\<close>

fun iterate :: "val \<Rightarrow> heap \<Rightarrow> error + val list" where
  "iterate (VRef a) h =
     (if a < length h
      then (case h ! a of CArr vs \<Rightarrow> Inr vs | CObj fs \<Rightarrow> Inl TypeError)
      else Inl TypeError)"
| "iterate (VStr s) h = Inr (map (\<lambda>c. VStr [c]) s)"
| "iterate v h = Inl TypeError"

text \<open>
  \<^verbatim>\<open>[ e1, ...e2, ... ]\<close>: an element of an array literal is an expression or the
  spread of one; they are evaluated from left to right, then the array is allocated.
\<close>

datatype element = Element "val expr" | Spread "val expr"

fun elements :: "element list \<Rightarrow> val list expr" where
  "elements [] h = Inr ([], h)"
| "elements (Element e # es) h =
     (case e h of
        Inl x \<Rightarrow> Inl x
      | Inr (v, h1) \<Rightarrow>
          (case elements es h1 of
             Inl x \<Rightarrow> Inl x
           | Inr (vs, h2) \<Rightarrow> Inr (v # vs, h2)))"
| "elements (Spread e # es) h =
     (case e h of
        Inl x \<Rightarrow> Inl x
      | Inr (v, h1) \<Rightarrow>
          (case iterate v h1 of
             Inl x \<Rightarrow> Inl x
           | Inr xs \<Rightarrow>
               (case elements es h1 of
                  Inl x \<Rightarrow> Inl x
                | Inr (vs, h2) \<Rightarrow> Inr (xs @ vs, h2))))"

definition array_literal :: "element list \<Rightarrow> val expr" where
  "array_literal es h =
     (case elements es h of Inl x \<Rightarrow> Inl x | Inr (vs, h1) \<Rightarrow> alloc (CArr vs) h1)"

text \<open>\<^verbatim>\<open>a ?? b\<close>: \<open>b\<close> is evaluated only when \<open>a\<close> is \<^verbatim>\<open>null\<close> or \<^verbatim>\<open>undefined\<close>.\<close>

definition coalesce :: "val expr \<Rightarrow> val expr \<Rightarrow> val expr" where
  "coalesce a b h =
     (case a h of
        Inl x \<Rightarrow> Inl x
      | Inr (v, h1) \<Rightarrow>
          (case v of VUndefined \<Rightarrow> b h1 | VNull \<Rightarrow> b h1 | _ \<Rightarrow> Inr (v, h1)))"

text \<open>\<^verbatim>\<open>f(arg)\<close>: the argument is evaluated, then the body of \<open>f\<close>.\<close>

definition call :: "(val \<Rightarrow> val expr) \<Rightarrow> val expr \<Rightarrow> val expr" where
  "call f arg h = (case arg h of Inl x \<Rightarrow> Inl x | Inr (v, h1) \<Rightarrow> f v h1)"

text \<open>The function and the module once more, now allocating what they build.\<close>

definition createLibraryReferenceStructure_on_heap :: "string \<Rightarrow> val \<Rightarrow> val expr" where
  "createLibraryReferenceStructure_on_heap libName extra =
     object_literal
       [(''type'', literal (VStr ''category'')),
        (''label'', literal (VStr ''Reference'')),
        (''link'', object_literal
           [(''type'', literal (VStr ''doc'')),
            (''id'', literal (VStr (''standard-library/'' @ libName @ ''/reference/index'')))]),
        (''items'', array_literal
           [Element (object_literal
              [(''type'', literal (VStr ''autogenerated'')),
               (''dirName'', literal (VStr (''standard-library/'' @ libName @ ''/reference'')))]),
            Spread (coalesce (literal extra) (array_literal []))])]"

text \<open>
  The module: the literal \<^verbatim>\<open>sidebars\<close> with its two calls. The first call passes
  one argument, so \<^verbatim>\<open>extra\<close> is \<^verbatim>\<open>undefined\<close>; the second passes an array literal.
  The assignment to \<^verbatim>\<open>module.exports\<close> hands the reference returned here to the
  loader of the module and is not part of the model.
\<close>

definition sidebars_on_heap :: "val expr" where
  "sidebars_on_heap =
     object_literal
       [(''docsSidebar'', array_literal
          [Element (object_literal
             [(''type'', literal (VStr ''category'')),
              (''label'', literal (VStr ''Introduction'')),
              (''items'', array_literal
                [Element (literal (VStr ''introduction/introduction'')),
                 Element (literal (VStr ''introduction/installation'')),
                 Element (literal (VStr ''introduction/usage'')),
                 Element (literal (VStr ''introduction/style-guide'')),
                 Element (literal (VStr ''introduction/formatter'')),
                 Element (object_literal
                   [(''type'', literal (VStr ''category'')),
                    (''label'', literal (VStr ''Configuration'')),
                    (''items'', array_literal
                      [Element (literal (VStr ''introduction/configuration/configuration'')),
                       Element (literal (VStr ''introduction/configuration/tracing''))])]),
                 Element (literal (VStr ''introduction/releases'')),
                 Element (literal (VStr ''introduction/faq''))])]),
           Element (object_literal
             [(''type'', literal (VStr ''category'')),
              (''label'', literal (VStr ''Getting Started'')),
              (''items'', array_literal
                [Element (literal (VStr ''getting-started/getting-started'')),
                 Element (literal (VStr ''getting-started/cadl-for-openapi-dev''))])]),
           Element (object_literal
             [(''type'', literal (VStr ''category'')),
              (''label'', literal (VStr ''Language Basics'')),
              (''items'', array_literal
                [Element (literal (VStr ''language-basics/overview'')),
                 Element (literal (VStr ''language-basics/imports'')),
                 Element (literal (VStr ''language-basics/namespaces'')),
                 Element (literal (VStr ''language-basics/decorators'')),
                 Element (literal (VStr ''language-basics/scalars'')),
                 Element (literal (VStr ''language-basics/models'')),
                 Element (literal (VStr ''language-basics/operations'')),
                 Element (literal (VStr ''language-basics/interfaces'')),
                 Element (literal (VStr ''language-basics/templates'')),
                 Element (literal (VStr ''language-basics/enums'')),
                 Element (literal (VStr ''language-basics/unions'')),
                 Element (literal (VStr ''language-basics/intersections'')),
                 Element (literal (VStr ''language-basics/type-literals'')),
                 Element (literal (VStr ''language-basics/aliases'')),
                 Element (literal (VStr ''language-basics/type-relations''))])]),
           Element (object_literal
             [(''type'', literal (VStr ''category'')),
              (''label'', literal (VStr ''Cadl Standard Library'')),
              (''items'', array_literal
                [Element (literal (VStr ''standard-library/built-in-types'')),
                 Element (literal (VStr ''standard-library/built-in-decorators'')),
                 Element (literal (VStr ''standard-library/projected-names'')),
                 Element (object_literal
                   [(''type'', literal (VStr ''category'')),
                    (''label'', literal (VStr ''Http And Rest'')),
                    (''items'', array_literal
                      [Element (literal (VStr ''standard-library/rest/overview'')),
                       Element (call (createLibraryReferenceStructure_on_heap ''rest'') (literal VUndefined)),
                       Element (literal (VStr ''standard-library/rest/operations'')),
                       Element (literal (VStr ''standard-library/rest/authentication'')),
                       Element (literal (VStr ''standard-library/rest/resource-routing''))])]),
                 Element (object_literal
                   [(''type'', literal (VStr ''category'')),
                    (''label'', literal (VStr ''OpenAPI'')),
                    (''items'', array_literal
                      [Element (literal (VStr ''standard-library/openapi/overview'')),
                       Element (call (createLibraryReferenceStructure_on_heap ''openapi'') 
                          (array_literal [Element (literal (VStr ''standard-library/openapi/diagnostics''))])),
                       Element (literal (VStr ''standard-library/openapi/openapi''))])])])]),
           Element (object_literal
             [(''type'', literal (VStr ''category'')),
              (''label'', literal (VStr ''Writing Cadl Libraries'')),
              (''items'', array_literal
                [Element (literal (VStr ''extending-cadl/basics'')),
                 Element (literal (VStr ''extending-cadl/create-decorators'')),
                 Element (literal (VStr ''extending-cadl/linters'')),
                 Element (literal (VStr ''extending-cadl/emitters'')),
                 Element (literal (VStr ''extending-cadl/writing-scaffolding-template''))])]),
           Element (object_literal
             [(''type'', literal (VStr ''category'')),
              (''label'', literal (VStr ''Compiler Reference'')),
              (''link'', object_literal
                [(''type'', literal (VStr ''doc'')),
                 (''id'', literal (VStr ''compiler/reference/index''))]),
              (''items'', array_literal
                [Element (object_literal
                   [(''type'', literal (VStr ''autogenerated'')),
                    (''dirName'', literal (VStr ''compiler''))])])]),
           Element (object_literal
             [(''type'', literal (VStr ''category'')),
              (''label'', literal (VStr ''Release Notes'')),
              (''collapsed'', literal (VBool True)),
              (''link'', object_literal
                [(''type'', literal (VStr ''generated-index'')),
                 (''title'', literal (VStr ''Release Notes'')),
                 (''slug'', literal (VStr ''/release-notes''))]),
              (''items'', array_literal
                [Element (object_literal
                   [(''type'', literal (VStr ''autogenerated'')),
                    (''dirName'', literal (VStr ''release-notes''))])])])])]"

text \<open>
  What a value stands for: the tree reached from it in the heap, to a depth of at most
  \<open>n\<close> references. \<^const>\<open>None\<close> when the structure is deeper (or cyclic), or an address
  is outside the heap. Two values, each in its heap, are structurally equal when they
  stand for the same tree.
\<close>

fun readback :: "nat \<Rightarrow> heap \<Rightarrow> val \<Rightarrow> jsval option" where
  "readback n h VUndefined = Some JUndefined"
| "readback n h VNull = Some JNull"
| "readback n h (VBool b) = Some (JBool b)"
| "readback n h (VStr s) = Some (JStr s)"
| "readback 0 h (VRef a) = None"
| "readback (Suc n) h (VRef a) =
     (if a < length h
      then (case h ! a of
              CArr vs \<Rightarrow> map_option JArr (those (map (readback n h) vs))
            | CObj fs \<Rightarrow>
                map_option JObj
                  (those (map (\<lambda>(k, v). map_option (Pair k) (readback n h v)) fs)))
      else None)"

text \<open>
  The relation the proofs below work with: evaluated in \<open>h\<close> or any heap that extends
  it, \<open>e\<close> returns, extends the heap it started in, and the value returned stands for
  the tree \<open>j\<close>.
\<close>

definition builds_from :: "heap \<Rightarrow> val expr \<Rightarrow> jsval \<Rightarrow> bool" where
  "builds_from h e j \<longleftrightarrow>
     (\<forall>g. \<exists>v g' n. e (h @ g) = Inr (v, h @ g @ g') \<and> readback n (h @ g @ g') v = Some j)"

text \<open>The trees one element of an array literal contributes.\<close>

fun element_builds :: "heap \<Rightarrow> element \<Rightarrow> jsval list \<Rightarrow> bool" where
  "element_builds h (Element e) js = (\<exists>j. js = [j] \<and> builds_from h e j)"
| "element_builds h (Spread e) js = (\<exists>j. builds_from h e j \<and> spread j = Inr js)"

section \<open>Properties\<close>

subsection \<open>The function\<close>

text \<open>
  C1. For every library name and every list \<open>extra\<close>, the call returns an object of one
  fixed shape: the properties \<^verbatim>\<open>type\<close>, \<^verbatim>\<open>label\<close>, \<^verbatim>\<open>link\<close>, \<^verbatim>\<open>items\<close>, with type
  \<^verbatim>\<open>category\<close>, label \<^verbatim>\<open>Reference\<close>, a doc link to
  \<^verbatim>\<open>standard-library/<libName>/reference/index\<close>, and as items the autogenerated entry
  of \<^verbatim>\<open>standard-library/<libName>/reference\<close> followed by the entries of \<open>extra\<close>;
  without \<open>extra\<close> the autogenerated entry is the only item.
\<close>

theorem createLibraryReferenceStructure_shape:
  "(\<exists>r. createLibraryReferenceStructure libName (JArr extra) = Inr r
        \<and> is_reference_category libName extra r)
   \<and> (\<exists>r. createLibraryReferenceStructure libName JUndefined = Inr r
        \<and> is_reference_category libName [] r)"
  by (simp add: createLibraryReferenceStructure_def is_reference_category_def)

text \<open>
  C2, as the claim states it, fails: the function takes a library name and extra items,
  not a label, and no argument becomes the label. The call for the library \<^verbatim>\<open>rest\<close>
  returns a descriptor labelled \<^verbatim>\<open>Reference\<close>, not \<^verbatim>\<open>rest\<close>.
\<close>

theorem label_is_not_the_argument:
  "(case createLibraryReferenceStructure ''rest'' JUndefined of
      Inl e \<Rightarrow> False
    | Inr r \<Rightarrow> own_property r ''label'' = Some (JStr ''Reference'')
             \<and> own_property r ''label'' \<noteq> Some (JStr ''rest''))"
  by (simp add: createLibraryReferenceStructure_def)

text \<open>
  C2, amended. The function maps a library name and extra items to a descriptor whose
  label is the constant \<^verbatim>\<open>Reference\<close> whenever the call returns; the label equals the
  first argument only when that argument is itself \<^verbatim>\<open>Reference\<close>.
\<close>

theorem createLibraryReferenceStructure_label_constant:
  "createLibraryReferenceStructure libName extra = Inr r \<Longrightarrow>
     own_property r ''label'' = Some (JStr ''Reference'')
     \<and> (own_property r ''label'' = Some (JStr libName) \<longleftrightarrow> libName = ''Reference'')"
  by (auto simp: createLibraryReferenceStructure_def split: sum.splits)

theorem createLibraryReferenceStructure_label_constant_witness:
  "\<exists>r. createLibraryReferenceStructure ''openapi''
          (JArr [JStr ''standard-library/openapi/diagnostics'']) = Inr r
       \<and> own_property r ''label'' = Some (JStr ''Reference'')
       \<and> own_property r ''label'' \<noteq> Some (JStr ''openapi'')"
proof -
  obtain r where r: "createLibraryReferenceStructure ''openapi''
      (JArr [JStr ''standard-library/openapi/diagnostics'']) = Inr r"
    by (simp add: createLibraryReferenceStructure_def)
  from createLibraryReferenceStructure_label_constant [OF r] r show ?thesis
    by simp
qed

text \<open>
  C3. For every library name, the call with a list for \<open>extra\<close>, and the call without
  \<open>extra\<close> (or with \<^verbatim>\<open>undefined\<close>), return a value: neither throws. On the heap, the
  same two calls return in every heap, where \<open>extra\<close> is \<^verbatim>\<open>undefined\<close> or the address
  of an array, and leave the heap they started in extended by the objects they built:
  they change nothing that was there.
\<close>

theorem createLibraryReferenceStructure_returns:
  "(\<exists>r. createLibraryReferenceStructure libName (JArr extra) = Inr r)
   \<and> (\<exists>r. createLibraryReferenceStructure libName JUndefined = Inr r)
   \<and> (\<exists>v g. createLibraryReferenceStructure_on_heap libName VUndefined h = Inr (v, h @ g))
   \<and> (a < length h \<and> h ! a = CArr vs \<longrightarrow>
        (\<exists>v g. createLibraryReferenceStructure_on_heap libName (VRef a) h = Inr (v, h @ g)))"
  by (simp add: createLibraryReferenceStructure_def createLibraryReferenceStructure_on_heap_def
      object_literal_def array_literal_def literal_def alloc_def coalesce_def nth_append)

theorem createLibraryReferenceStructure_returns_witness:
  "(0::nat) < length [CArr [VStr ''standard-library/openapi/diagnostics'']]
   \<and> [CArr [VStr ''standard-library/openapi/diagnostics'']] ! 0
       = CArr [VStr ''standard-library/openapi/diagnostics'']
   \<and> (\<exists>v g. createLibraryReferenceStructure_on_heap ''openapi'' (VRef 0)
          [CArr [VStr ''standard-library/openapi/diagnostics'']]
        = Inr (v, [CArr [VStr ''standard-library/openapi/diagnostics'']] @ g))"
  using createLibraryReferenceStructure_returns
    [of "''openapi''" "[]" "[CArr [VStr ''standard-library/openapi/diagnostics'']]" 0
      "[VStr ''standard-library/openapi/diagnostics'']"]
  by simp

text \<open>
  Outside the declared type of \<open>extra\<close> the spread can throw: exactly for a boolean and
  for a plain object.
\<close>

lemma createLibraryReferenceStructure_throws_iff:
  "createLibraryReferenceStructure libName extra = Inl TypeError
    \<longleftrightarrow> (\<exists>b. extra = JBool b) \<or> (\<exists>fs. extra = JObj fs)"
  by (cases extra) (simp_all add: createLibraryReferenceStructure_def)

text \<open>
  C8. Leaving the argument \<^verbatim>\<open>extra\<close> out, or passing \<^verbatim>\<open>undefined\<close> for it (the
  same call, since a missing argument is bound to \<^verbatim>\<open>undefined\<close>), returns what the
  call with the empty array returns, and that call does return a value.
\<close>

theorem createLibraryReferenceStructure_default_extra:
  "createLibraryReferenceStructure libName JUndefined
     = createLibraryReferenceStructure libName (JArr [])
   \<and> (\<exists>r. createLibraryReferenceStructure libName (JArr []) = Inr r)"
  by (simp add: createLibraryReferenceStructure_def)

text \<open>
  C9. Whenever the call returns, the items of the result are not empty; the first item
  is the autogenerated entry, the entries of \<open>extra\<close> follow it in their order (none
  when \<open>extra\<close> is left out), and the id of the link is the directory name of the first
  item followed by \<^verbatim>\<open>/index\<close>.
\<close>

theorem createLibraryReferenceStructure_items_and_link:
  "createLibraryReferenceStructure libName extra = Inr r \<Longrightarrow>
     \<exists>first rest d.
        own_property r ''items'' = Some (JArr (first # rest))
      \<and> is_autogenerated first
      \<and> own_property first ''dirName'' = Some (JStr d)
      \<and> (\<exists>lk. own_property r ''link'' = Some lk
             \<and> own_property lk ''id'' = Some (JStr (d @ ''/index'')))
      \<and> (\<forall>xs. extra = JArr xs \<longrightarrow> rest = xs)
      \<and> (extra = JUndefined \<longrightarrow> rest = [])"
  by (auto simp: createLibraryReferenceStructure_def is_autogenerated_def split: sum.splits)

theorem createLibraryReferenceStructure_items_and_link_witness:
  "\<exists>r first d lk.
      createLibraryReferenceStructure ''openapi''
        (JArr [JStr ''standard-library/openapi/diagnostics'']) = Inr r
    \<and> own_property r ''items''
        = Some (JArr [first, JStr ''standard-library/openapi/diagnostics''])
    \<and> is_autogenerated first
    \<and> own_property first ''dirName'' = Some (JStr d)
    \<and> own_property r ''link'' = Some lk
    \<and> own_property lk ''id'' = Some (JStr (d @ ''/index''))"
proof -
  obtain r where r: "createLibraryReferenceStructure ''openapi''
      (JArr [JStr ''standard-library/openapi/diagnostics'']) = Inr r"
    by (simp add: createLibraryReferenceStructure_def)
  from createLibraryReferenceStructure_items_and_link [OF r] r show ?thesis
    by blast
qed

text \<open>
  C10. The type and the label of a result do not depend on the arguments: any two calls
  that return give type \<^verbatim>\<open>category\<close> and label \<^verbatim>\<open>Reference\<close>, both of them.
\<close>

theorem createLibraryReferenceStructure_type_label_fixed:
  "createLibraryReferenceStructure libName1 extra1 = Inr r1 \<Longrightarrow>
   createLibraryReferenceStructure libName2 extra2 = Inr r2 \<Longrightarrow>
     own_property r1 ''type'' = own_property r2 ''type''
   \<and> own_property r1 ''label'' = own_property r2 ''label''
   \<and> own_property r1 ''type'' = Some (JStr ''category'')
   \<and> own_property r1 ''label'' = Some (JStr ''Reference'')"
  by (auto simp: createLibraryReferenceStructure_def split: sum.splits)

theorem createLibraryReferenceStructure_type_label_fixed_witness:
  "\<exists>r1 r2.
      createLibraryReferenceStructure ''rest'' JUndefined = Inr r1
    \<and> createLibraryReferenceStructure ''openapi''
        (JArr [JStr ''standard-library/openapi/diagnostics'']) = Inr r2
    \<and> own_property r1 ''type'' = own_property r2 ''type''
    \<and> own_property r1 ''label'' = own_property r2 ''label''
    \<and> own_property r1 ''type'' = Some (JStr ''category'')
    \<and> own_property r1 ''label'' = Some (JStr ''Reference'')"
proof -
  obtain r1 where r1: "createLibraryReferenceStructure ''rest'' JUndefined = Inr r1"
    by (simp add: createLibraryReferenceStructure_def)
  obtain r2 where r2: "createLibraryReferenceStructure ''openapi''
      (JArr [JStr ''standard-library/openapi/diagnostics'']) = Inr r2"
    by (simp add: createLibraryReferenceStructure_def)
  from createLibraryReferenceStructure_type_label_fixed [OF r1 r2] r1 r2 show ?thesis
    by blast
qed

subsection \<open>The tree\<close>

text \<open>No value is of two kinds.\<close>

lemma kinds_exclusive:
  "\<not> (is_leaf v \<and> is_category v) \<and> \<not> (is_leaf v \<and> is_autogenerated v)
   \<and> \<not> (is_category v \<and> is_autogenerated v)"
  by (cases v) (auto simp: is_category_def is_autogenerated_def)

lemma sidebar_nodes_have_a_kind:
  "\<exists>roots. docsSidebar = Some roots
     \<and> list_all (\<lambda>n. is_leaf n \<or> is_category n \<or> is_autogenerated n) (sidebar_nodes roots)"
  by (simp add: docsSidebar_def sidebars_def createLibraryReferenceStructure_def
      sidebar_nodes_def is_category_def is_autogenerated_def)

text \<open>
  C4. The module evaluates to an object with the array \<^verbatim>\<open>docsSidebar\<close>, and every node
  of that tree (the two results of \<^verbatim>\<open>createLibraryReferenceStructure\<close> and the nodes
  below them included) is of exactly one kind: a leaf (a string), a category (type
  \<^verbatim>\<open>category\<close>, a string label, a link object or none, an array of items, whose
  elements are nodes of the tree again) or an autogenerated placeholder (type
  \<^verbatim>\<open>autogenerated\<close>, a directory name). The kinds say what a node must have; the flag
  \<^verbatim>\<open>collapsed\<close> of the category \<^verbatim>\<open>Release Notes\<close> is a further attribute of that
  category.
\<close>

theorem sidebars_nodes_of_three_kinds:
  "\<exists>roots. docsSidebar = Some roots \<and>
    (\<forall>n \<in> set (sidebar_nodes roots).
        (is_leaf n \<and> \<not> is_category n \<and> \<not> is_autogenerated n)
      \<or> (\<not> is_leaf n \<and> is_category n \<and> \<not> is_autogenerated n)
      \<or> (\<not> is_leaf n \<and> \<not> is_category n \<and> is_autogenerated n))"
proof -
  from sidebar_nodes_have_a_kind obtain roots where t: "docsSidebar = Some roots"
    and a: "list_all (\<lambda>n. is_leaf n \<or> is_category n \<or> is_autogenerated n) (sidebar_nodes roots)"
    by blast
  have "(is_leaf n \<and> \<not> is_category n \<and> \<not> is_autogenerated n)
      \<or> (\<not> is_leaf n \<and> is_category n \<and> \<not> is_autogenerated n)
      \<or> (\<not> is_leaf n \<and> \<not> is_category n \<and> is_autogenerated n)"
    if "n \<in> set (sidebar_nodes roots)" for n
  proof -
    from a that have "is_leaf n \<or> is_category n \<or> is_autogenerated n"
      by (simp add: list_all_iff)
    with kinds_exclusive [of n] show ?thesis by blast
  qed
  with t show ?thesis by blast
qed

theorem sidebars_nodes_of_three_kinds_witness:
  "\<exists>roots n. docsSidebar = Some roots
     \<and> n = roots ! 6
     \<and> own_property n ''label'' = Some (JStr ''Release Notes'')
     \<and> own_property n ''collapsed'' = Some (JBool True)
     \<and> n \<in> set (sidebar_nodes roots)
     \<and> \<not> is_leaf n \<and> is_category n \<and> \<not> is_autogenerated n"
proof -
  from sidebars_nodes_of_three_kinds obtain roots where t: "docsSidebar = Some roots"
    and b: "\<forall>n \<in> set (sidebar_nodes roots).
        (is_leaf n \<and> \<not> is_category n \<and> \<not> is_autogenerated n)
      \<or> (\<not> is_leaf n \<and> is_category n \<and> \<not> is_autogenerated n)
      \<or> (\<not> is_leaf n \<and> \<not> is_category n \<and> is_autogenerated n)"
    by blast
  define n where "n = roots ! 6"
  have "case docsSidebar of
          None \<Rightarrow> False
        | Some rs \<Rightarrow>
            rs ! 6 \<in> set (sidebar_nodes rs)
            \<and> \<not> is_leaf (rs ! 6) \<and> \<not> is_autogenerated (rs ! 6)
            \<and> own_property (rs ! 6) ''label'' = Some (JStr ''Release Notes'')
            \<and> own_property (rs ! 6) ''collapsed'' = Some (JBool True)"
    by (simp add: docsSidebar_def sidebars_def createLibraryReferenceStructure_def
        sidebar_nodes_def is_autogenerated_def)
  then have f: "n \<in> set (sidebar_nodes roots)" "\<not> is_leaf n" "\<not> is_autogenerated n"
      "own_property n ''label'' = Some (JStr ''Release Notes'')"
      "own_property n ''collapsed'' = Some (JBool True)"
    by (simp_all add: n_def t)
  from b f(1) have "(is_leaf n \<and> \<not> is_category n \<and> \<not> is_autogenerated n)
      \<or> (\<not> is_leaf n \<and> is_category n \<and> \<not> is_autogenerated n)
      \<or> (\<not> is_leaf n \<and> \<not> is_category n \<and> is_autogenerated n)"
    by (rule bspec)
  with f(2,3) have "is_category n" by blast
  with t f n_def show ?thesis by (intro exI [of _ roots] exI [of _ n]) simp
qed

text \<open>
  In a list whose entries of kind \<open>P\<close> have distinct values of \<open>f\<close>, two such entries
  at different positions differ in \<open>f\<close>.
\<close>

lemma distinct_filter_nth:
  "distinct (map f (filter P xs)) \<Longrightarrow> i < j \<Longrightarrow> j < length xs \<Longrightarrow> P (xs ! i) \<Longrightarrow> P (xs ! j)
    \<Longrightarrow> f (xs ! i) \<noteq> f (xs ! j)"
proof (induction xs arbitrary: i j)
  case Nil
  then show ?case by simp
next
  case (Cons x xs)
  from Cons.prems(2) obtain j' where j: "j = Suc j'" by (cases j) auto
  show ?case
  proof (cases i)
    case 0
    with Cons.prems j have "P x" and "xs ! j' \<in> set (filter P xs)" by auto
    with Cons.prems(1) 0 j show ?thesis by auto
  next
    case (Suc i')
    with Cons.prems j have "f (xs ! i') \<noteq> f (xs ! j')"
      by (intro Cons.IH) (auto split: if_splits)
    with Suc j show ?thesis by simp
  qed
qed

lemma sibling_lists_labels_distinct:
  "\<exists>roots. docsSidebar = Some roots \<and>
     list_all (\<lambda>xs. distinct (map (\<lambda>v. own_property v ''label'') (filter is_category xs)))
       (sibling_lists roots)"
  by (simp add: docsSidebar_def sidebars_def createLibraryReferenceStructure_def
      sidebar_nodes_def sibling_lists_def is_category_def)

text \<open>
  C5. In the evaluated sidebar, in every list of siblings (the top-level list and the
  items of every node), two categories at different positions carry different labels.
\<close>

theorem sidebars_sibling_labels_unique:
  "\<exists>roots. docsSidebar = Some roots \<and>
    (\<forall>xs \<in> set (sibling_lists roots). \<forall>i j.
        i < j \<and> j < length xs \<and> is_category (xs ! i) \<and> is_category (xs ! j)
        \<longrightarrow> own_property (xs ! i) ''label'' \<noteq> own_property (xs ! j) ''label'')"
proof -
  from sibling_lists_labels_distinct obtain roots where t: "docsSidebar = Some roots"
    and a: "list_all (\<lambda>xs. distinct (map (\<lambda>v. own_property v ''label'') (filter is_category xs)))
       (sibling_lists roots)"
    by blast
  have "own_property (xs ! i) ''label'' \<noteq> own_property (xs ! j) ''label''"
    if "xs \<in> set (sibling_lists roots)" "i < j" "j < length xs"
      "is_category (xs ! i)" "is_category (xs ! j)"
    for xs i j
  proof -
    from a that(1)
    have "distinct (map (\<lambda>v. own_property v ''label'') (filter is_category xs))"
      by (simp add: list_all_iff)
    from distinct_filter_nth [OF this that(2-5)] show ?thesis .
  qed
  with t show ?thesis by blast
qed

theorem sidebars_sibling_labels_unique_witness:
  "\<exists>roots xs. docsSidebar = Some roots
     \<and> xs = children (roots ! 3)
     \<and> xs \<in> set (sibling_lists roots)
     \<and> (3::nat) < 4 \<and> 4 < length xs
     \<and> is_category (xs ! 3) \<and> is_category (xs ! 4)
     \<and> own_property (xs ! 3) ''label'' = Some (JStr ''Http And Rest'')
     \<and> own_property (xs ! 4) ''label'' = Some (JStr ''OpenAPI'')
     \<and> own_property (xs ! 3) ''label'' \<noteq> own_property (xs ! 4) ''label''"
proof -
  from sidebars_sibling_labels_unique obtain roots where t: "docsSidebar = Some roots"
    and b: "\<forall>xs \<in> set (sibling_lists roots). \<forall>i j.
        i < j \<and> j < length xs \<and> is_category (xs ! i) \<and> is_category (xs ! j)
        \<longrightarrow> own_property (xs ! i) ''label'' \<noteq> own_property (xs ! j) ''label''"
    by blast
  define xs where "xs = children (roots ! 3)"
  have "case docsSidebar of
          None \<Rightarrow> False
        | Some rs \<Rightarrow>
            children (rs ! 3) \<in> set (sibling_lists rs) \<and> 4 < length (children (rs ! 3))
            \<and> is_category (children (rs ! 3) ! 3) \<and> is_category (children (rs ! 3) ! 4)
            \<and> own_property (children (rs ! 3) ! 3) ''label'' = Some (JStr ''Http And Rest'')
            \<and> own_property (children (rs ! 3) ! 4) ''label'' = Some (JStr ''OpenAPI'')"
    by (simp add: docsSidebar_def sidebars_def createLibraryReferenceStructure_def
        sibling_lists_def sidebar_nodes_def is_category_def)
  then have f: "xs \<in> set (sibling_lists roots)" "4 < length xs"
      "is_category (xs ! 3)" "is_category (xs ! 4)"
      "own_property (xs ! 3) ''label'' = Some (JStr ''Http And Rest'')"
      "own_property (xs ! 4) ''label'' = Some (JStr ''OpenAPI'')"
    by (simp_all add: xs_def t)
  have "(3::nat) < 4" by simp
  with b f have "own_property (xs ! 3) ''label'' \<noteq> own_property (xs ! 4) ''label''"
    by blast
  with t f xs_def show ?thesis by (intro exI [of _ roots] exI [of _ xs]) simp
qed

text \<open>
  Uniqueness is per list of siblings only: the label \<^verbatim>\<open>Reference\<close> is carried by two
  categories of the tree, one under \<^verbatim>\<open>Http And Rest\<close> and one under \<^verbatim>\<open>OpenAPI\<close>.
\<close>

lemma reference_label_twice_in_tree:
  "\<exists>roots. docsSidebar = Some roots
     \<and> length (filter (\<lambda>n. own_property n ''label'' = Some (JStr ''Reference''))
          (sidebar_nodes roots)) = 2"
  by (simp add: docsSidebar_def sidebars_def createLibraryReferenceStructure_def
      sidebar_nodes_def)

subsection \<open>Construction on the heap\<close>

text \<open>Reading back: more fuel and a longer heap change nothing.\<close>

lemma those_map_Some_iff:
  "those (map f xs) = Some ys \<longleftrightarrow> list_all2 (\<lambda>x y. f x = Some y) xs ys"
proof (induction xs arbitrary: ys)
  case Nil
  then show ?case by auto
next
  case (Cons x xs)
  then show ?case
    by (cases ys) (auto split: option.splits)
qed

lemma readback_mono:
  "readback n h v = Some j \<Longrightarrow> n \<le> m \<Longrightarrow> readback m (h @ g) v = Some j"
proof (induction n arbitrary: m v j)
  case 0
  then show ?case by (cases v) auto
next
  case (Suc n)
  show ?case
  proof (cases v)
    case (VRef a)
    from Suc.prems(2) obtain m' where m: "m = Suc m'" and le: "n \<le> m'"
      by (cases m) auto
    from Suc.prems(1) VRef have a: "a < length h"
      by (auto split: if_splits)
    show ?thesis
    proof (cases "h ! a")
      case (CArr vs)
      with Suc.prems(1) VRef a obtain js where j: "j = JArr js"
        and js: "list_all2 (\<lambda>v j. readback n h v = Some j) vs js"
        by (auto simp: those_map_Some_iff)
      from js have "list_all2 (\<lambda>v j. readback m' (h @ g) v = Some j) vs js"
        by (rule list_all2_mono) (rule Suc.IH [OF _ le])
      with VRef a CArr j m show ?thesis
        by (simp add: nth_append those_map_Some_iff)
    next
      case (CObj fs)
      with Suc.prems(1) VRef a obtain js where j: "j = JObj js"
        and js: "list_all2 (\<lambda>p q. (case p of (key, v) \<Rightarrow> map_option (Pair key) (readback n h v)) = Some q) fs js"
        by (auto simp: those_map_Some_iff)
      from js have "list_all2 (\<lambda>p q. (case p of (key, v) \<Rightarrow> map_option (Pair key) (readback m' (h @ g) v)) = Some q) fs js"
        by (rule list_all2_mono) (auto dest: Suc.IH [OF _ le])
      with VRef a CObj j m show ?thesis
        by (simp add: nth_append those_map_Some_iff)
    qed
  qed (use Suc.prems in auto)
qed

text \<open>A value that stands for a tree keeps doing so as the heap grows.\<close>

lemma builds_from_literal:
  "readback n h v = Some j \<Longrightarrow> builds_from h (literal v) j"
  unfolding builds_from_def literal_def
proof
  fix g
  assume "readback n h v = Some j"
  then have "readback n (h @ g) v = Some j" by (rule readback_mono) simp
  then show "\<exists>v' g' n. Inr (v, h @ g) = Inr (v', h @ g @ g') \<and> readback n (h @ g @ g') v' = Some j"
    by (intro exI [of _ v] exI [of _ "[]"] exI [of _ n]) simp
qed

text \<open>
  An object literal builds the object of the trees its property values build, whatever
  the heap it starts in.
\<close>

lemma properties_builds:
  assumes "list_all2 (\<lambda>p q. fst p = fst q \<and> builds_from h (snd p) (snd q)) ps fs"
  shows "\<exists>vs g' n. properties ps (h @ g) = Inr (vs, h @ g @ g')
           \<and> list_all2 (\<lambda>p q. fst p = fst q \<and> readback n (h @ g @ g') (snd p) = Some (snd q)) vs fs"
  using assms
proof (induction arbitrary: g rule: list_all2_induct)
  case Nil
  show ?case by (intro exI [of _ "[]"]) simp
next
  case (Cons p ps q fs)
  obtain key e where p: "p = (key, e)" by (cases p)
  from Cons.hyps(1) p have key: "key = fst q" and b: "builds_from h e (snd q)" by auto
  from b obtain v g1 n1 where e: "e (h @ g) = Inr (v, h @ g @ g1)"
    and r1: "readback n1 (h @ g @ g1) v = Some (snd q)"
    unfolding builds_from_def by blast
  from Cons.IH [of "g @ g1"] obtain vs g2 n2
    where ps: "properties ps (h @ g @ g1) = Inr (vs, h @ g @ g1 @ g2)"
      and r2: "list_all2 (\<lambda>p q. fst p = fst q \<and> readback n2 (h @ g @ g1 @ g2) (snd p) = Some (snd q)) vs fs"
    by auto
  let ?n = "max n1 n2"
  from r1 have r1': "readback ?n ((h @ g @ g1) @ g2) v = Some (snd q)"
    by (rule readback_mono) simp
  have r2': "list_all2 (\<lambda>p q. fst p = fst q \<and> readback ?n (h @ g @ g1 @ g2) (snd p) = Some (snd q)) vs fs"
    using r2
  proof (rule list_all2_mono)
    fix x y
    assume xy: "fst x = fst y \<and> readback n2 (h @ g @ g1 @ g2) (snd x) = Some (snd y)"
    then have rb: "readback n2 (h @ g @ g1 @ g2) (snd x) = Some (snd y)" by simp
    have "n2 \<le> ?n" by simp
    from readback_mono [OF rb this, of "[]"] xy
    show "fst x = fst y \<and> readback ?n (h @ g @ g1 @ g2) (snd x) = Some (snd y)"
      by simp
  qed
  show ?case
    using p key e ps r1' r2'
    by (intro exI [of _ "(key, v) # vs"] exI [of _ "g1 @ g2"] exI [of _ ?n]) simp
qed

lemma list_all2_readback_props:
  assumes "list_all2 (\<lambda>p q. fst p = fst q \<and> readback n h (snd p) = Some (snd q)) vs fs"
  shows "those (map (\<lambda>(key, v). map_option (Pair key) (readback n h v)) vs) = Some fs"
  unfolding those_map_Some_iff
  using assms by (rule list_all2_mono) (auto simp: case_prod_beta)

lemma builds_from_object:
  assumes "list_all2 (\<lambda>p q. fst p = fst q \<and> builds_from h (snd p) (snd q)) ps fs"
  shows "builds_from h (object_literal ps) (JObj fs)"
  unfolding builds_from_def
proof
  fix g
  from properties_builds [OF assms, of g] obtain vs g' n
    where ps: "properties ps (h @ g) = Inr (vs, h @ g @ g')"
      and r: "list_all2 (\<lambda>p q. fst p = fst q \<and> readback n (h @ g @ g') (snd p) = Some (snd q)) vs fs"
    by blast
  have "list_all2 (\<lambda>p q. fst p = fst q \<and> readback n (h @ g @ g' @ [CObj vs]) (snd p) = Some (snd q)) vs fs"
    using r
  proof (rule list_all2_mono)
    fix x y
    assume xy: "fst x = fst y \<and> readback n (h @ g @ g') (snd x) = Some (snd y)"
    then have rb: "readback n (h @ g @ g') (snd x) = Some (snd y)" by simp
    from readback_mono [OF rb order_refl, of "[CObj vs]"] xy
    show "fst x = fst y \<and> readback n (h @ g @ g' @ [CObj vs]) (snd x) = Some (snd y)"
      by simp
  qed
  then have "those (map (\<lambda>(key, v). map_option (Pair key) (readback n (h @ g @ g' @ [CObj vs]) v)) vs) = Some fs"
    by (rule list_all2_readback_props)
  then have "readback (Suc n) (h @ g @ g' @ [CObj vs]) (VRef (length (h @ g @ g'))) = Some (JObj fs)"
    by (simp add: nth_append)
  with ps show "\<exists>v g' n. object_literal ps (h @ g) = Inr (v, h @ g @ g') \<and> readback n (h @ g @ g') v = Some (JObj fs)"
    by (intro exI [of _ "VRef (length (h @ g @ g'))"] exI [of _ "g' @ [CObj vs]"] exI [of _ "Suc n"])
      (simp add: object_literal_def alloc_def)
qed

text \<open>
  Iterating a value yields values that stand for what the spread of its tree yields, and
  throws when that spread throws.
\<close>

lemma readback_fuel: "readback n h v = Some j \<Longrightarrow> n \<le> m \<Longrightarrow> readback m h v = Some j"
  using readback_mono [of n h v j m "[]"] by simp

lemma readback_append: "readback n h v = Some j \<Longrightarrow> readback n (h @ g) v = Some j"
  using readback_mono [of n h v j n g] by simp

lemma list_all2_readback_mono:
  assumes "list_all2 (\<lambda>v j. readback n h v = Some j) vs js" and "n \<le> m"
  shows "list_all2 (\<lambda>v j. readback m (h @ g) v = Some j) vs js"
  using assms(1) by (rule list_all2_mono) (rule readback_mono [OF _ assms(2)])

lemma iterate_readback:
  assumes "readback n h v = Some j" and "spread j = Inr js"
  shows "\<exists>xs. iterate v h = Inr xs \<and> list_all2 (\<lambda>x j. readback n h x = Some j) xs js"
proof (cases v)
  case (VStr s)
  with assms show ?thesis by (auto simp: list_all2_map1 list_all2_map2 list_all2_same)
next
  case (VRef a)
  with assms(1) obtain n' where n: "n = Suc n'" by (cases n) auto
  from assms(1) VRef n have a: "a < length h" by (auto split: if_splits)
  show ?thesis
  proof (cases "h ! a")
    case (CArr vs)
    with assms VRef n a have "list_all2 (\<lambda>x j. readback n' h x = Some j) vs js"
      by (auto simp: those_map_Some_iff)
    then have "list_all2 (\<lambda>x j. readback n (h @ []) x = Some j) vs js"
      by (rule list_all2_readback_mono) (simp add: n)
    with VRef a CArr show ?thesis by simp
  next
    case (CObj fs)
    with assms VRef n a show ?thesis by auto
  qed
qed (use assms in auto)

lemma iterate_throws:
  assumes "readback n h v = Some j" and "spread j = Inl x"
  shows "iterate v h = Inl x"
proof (cases v)
  case (VRef a)
  with assms(1) obtain n' where n: "n = Suc n'" by (cases n) auto
  from assms(1) VRef n have a: "a < length h" by (auto split: if_splits)
  from assms VRef n a show ?thesis
    by (cases "h ! a"; cases x) auto
qed (use assms in \<open>auto split: if_splits\<close>)

text \<open>An array literal builds the array of the trees its elements contribute.\<close>

lemma elements_builds:
  assumes "list_all2 (element_builds h) es jss"
  shows "\<exists>vs g' n. elements es (h @ g) = Inr (vs, h @ g @ g')
           \<and> list_all2 (\<lambda>v j. readback n (h @ g @ g') v = Some j) vs (concat jss)"
  using assms
proof (induction arbitrary: g rule: list_all2_induct)
  case Nil
  show ?case by (intro exI [of _ "[]"]) simp
next
  case (Cons el es js jss)
  show ?case
  proof (cases el)
    case (Element e)
    with Cons.hyps(1) obtain j where js: "js = [j]" and b: "builds_from h e j" by auto
    from b obtain v g1 n1 where e: "e (h @ g) = Inr (v, h @ g @ g1)"
      and r1: "readback n1 (h @ g @ g1) v = Some j"
      unfolding builds_from_def by blast
    from Cons.IH [of "g @ g1"] obtain vs g2 n2
      where es: "elements es (h @ g @ g1) = Inr (vs, h @ g @ g1 @ g2)"
        and r2: "list_all2 (\<lambda>v j. readback n2 (h @ g @ g1 @ g2) v = Some j) vs (concat jss)"
      by auto
    let ?n = "max n1 n2"
    have "n1 \<le> ?n" by simp
    from readback_mono [OF r1 this, of g2]
    have r1': "readback ?n (h @ g @ g1 @ g2) v = Some j" by simp
    have "n2 \<le> ?n" by simp
    from list_all2_readback_mono [OF r2 this, of "[]"]
    have r2': "list_all2 (\<lambda>v j. readback ?n (h @ g @ g1 @ g2) v = Some j) vs (concat jss)"
      by simp
    show ?thesis
      using Element js e es r1' r2'
      by (intro exI [of _ "v # vs"] exI [of _ "g1 @ g2"] exI [of _ ?n]) simp
  next
    case (Spread e)
    with Cons.hyps(1) obtain j where b: "builds_from h e j" and sp: "spread j = Inr js" by auto
    from b obtain v g1 n1 where e: "e (h @ g) = Inr (v, h @ g @ g1)"
      and r1: "readback n1 (h @ g @ g1) v = Some j"
      unfolding builds_from_def by blast
    from iterate_readback [OF r1 sp] obtain xs
      where it: "iterate v (h @ g @ g1) = Inr xs"
        and rx: "list_all2 (\<lambda>x j. readback n1 (h @ g @ g1) x = Some j) xs js"
      by blast
    from Cons.IH [of "g @ g1"] obtain vs g2 n2
      where es: "elements es (h @ g @ g1) = Inr (vs, h @ g @ g1 @ g2)"
        and r2: "list_all2 (\<lambda>v j. readback n2 (h @ g @ g1 @ g2) v = Some j) vs (concat jss)"
      by auto
    let ?n = "max n1 n2"
    have "n1 \<le> ?n" by simp
    from list_all2_readback_mono [OF rx this, of g2]
    have rx': "list_all2 (\<lambda>x j. readback ?n (h @ g @ g1 @ g2) x = Some j) xs js" by simp
    have "n2 \<le> ?n" by simp
    from list_all2_readback_mono [OF r2 this, of "[]"]
    have r2': "list_all2 (\<lambda>v j. readback ?n (h @ g @ g1 @ g2) v = Some j) vs (concat jss)"
      by simp
    from rx' r2'
    have "list_all2 (\<lambda>v j. readback ?n (h @ g @ g1 @ g2) v = Some j) (xs @ vs) (js @ concat jss)"
      by (rule list_all2_appendI)
    then show ?thesis
      using Spread e it es
      by (intro exI [of _ "xs @ vs"] exI [of _ "g1 @ g2"] exI [of _ ?n]) simp
  qed
qed

lemma builds_from_array:
  assumes "list_all2 (element_builds h) es jss"
  shows "builds_from h (array_literal es) (JArr (concat jss))"
  unfolding builds_from_def
proof
  fix g
  from elements_builds [OF assms, of g] obtain vs g' n
    where es: "elements es (h @ g) = Inr (vs, h @ g @ g')"
      and r: "list_all2 (\<lambda>v j. readback n (h @ g @ g') v = Some j) vs (concat jss)"
    by blast
  from list_all2_readback_mono [OF r order_refl, of "[CArr vs]"]
  have "those (map (readback n (h @ g @ g' @ [CArr vs])) vs) = Some (concat jss)"
    by (simp add: those_map_Some_iff)
  then have "readback (Suc n) (h @ g @ g' @ [CArr vs]) (VRef (length (h @ g @ g')))
      = Some (JArr (concat jss))"
    by (simp add: nth_append)
  with es show "\<exists>v g' n. array_literal es (h @ g) = Inr (v, h @ g @ g')
      \<and> readback n (h @ g @ g') v = Some (JArr (concat jss))"
    by (intro exI [of _ "VRef (length (h @ g @ g'))"] exI [of _ "g' @ [CArr vs]"] exI [of _ "Suc n"])
      (simp add: array_literal_def alloc_def)
qed

lemma builds_from_plain_array:
  assumes "list_all2 (\<lambda>el j. case el of Element e \<Rightarrow> builds_from h e j | Spread e \<Rightarrow> False) es js"
  shows "builds_from h (array_literal es) (JArr js)"
proof -
  from assms have "list_all2 (element_builds h) es (map (\<lambda>j. [j]) js)"
    unfolding list_all2_map2
    by (rule list_all2_mono) (auto split: element.splits)
  from builds_from_array [OF this] show ?thesis by simp
qed

text \<open>The operator \<^verbatim>\<open>??\<close> and a call, on the heap and on trees.\<close>

lemma readback_nullish:
  "readback n h v = Some JUndefined \<longleftrightarrow> v = VUndefined"
  "readback n h v = Some JNull \<longleftrightarrow> v = VNull"
  by (cases v; cases n; auto split: if_splits cell.splits)+

lemma builds_from_coalesce:
  assumes a: "builds_from h a ja" and b: "builds_from h b jb"
  shows "builds_from h (coalesce a b) (nullish ja jb)"
  unfolding builds_from_def
proof
  fix g
  from a obtain v g1 n1 where e: "a (h @ g) = Inr (v, h @ g @ g1)"
    and r1: "readback n1 (h @ g @ g1) v = Some ja"
    unfolding builds_from_def by blast
  from b obtain w g2 n2 where e2: "b (h @ g @ g1) = Inr (w, h @ g @ g1 @ g2)"
    and r2: "readback n2 (h @ g @ g1 @ g2) w = Some jb"
    unfolding builds_from_def by (metis append.assoc)
  consider "ja = JUndefined" | "ja = JNull" | "ja \<noteq> JUndefined" "ja \<noteq> JNull" by blast
  then show "\<exists>v g' n. coalesce a b (h @ g) = Inr (v, h @ g @ g')
      \<and> readback n (h @ g @ g') v = Some (nullish ja jb)"
  proof cases
    case 1
    with r1 have "v = VUndefined" by (simp add: readback_nullish)
    with 1 e e2 r2 show ?thesis
      by (intro exI [of _ w] exI [of _ "g1 @ g2"] exI [of _ n2]) (simp add: coalesce_def)
  next
    case 2
    with r1 have "v = VNull" by (simp add: readback_nullish)
    with 2 e e2 r2 show ?thesis
      by (intro exI [of _ w] exI [of _ "g1 @ g2"] exI [of _ n2]) (simp add: coalesce_def)
  next
    case 3
    with r1 have "v \<noteq> VUndefined" "v \<noteq> VNull" by auto
    moreover from 3 have "nullish ja jb = ja" by (cases ja) auto
    ultimately show ?thesis using e r1
      by (intro exI [of _ v] exI [of _ g1] exI [of _ n1])
        (simp add: coalesce_def split: val.splits)
  qed
qed

lemma builds_from_call:
  assumes a: "builds_from h arg ja"
    and f: "\<And>h' v n. readback n h' v = Some ja \<Longrightarrow> builds_from h' (f v) r"
  shows "builds_from h (call f arg) r"
  unfolding builds_from_def
proof
  fix g
  from a obtain v g1 n1 where e: "arg (h @ g) = Inr (v, h @ g @ g1)"
    and r1: "readback n1 (h @ g @ g1) v = Some ja"
    unfolding builds_from_def by blast
  from f [OF r1] obtain w g2 n2 where "f v ((h @ g @ g1) @ []) = Inr (w, (h @ g @ g1) @ [] @ g2)"
    and "readback n2 ((h @ g @ g1) @ [] @ g2) w = Some r"
    unfolding builds_from_def by blast
  with e show "\<exists>v g' n. call f arg (h @ g) = Inr (v, h @ g @ g') \<and> readback n (h @ g @ g') v = Some r"
    by (intro exI [of _ w] exI [of _ "g1 @ g2"] exI [of _ n2]) (simp add: call_def)
qed

lemma builds_from_str: "builds_from h (literal (VStr s)) (JStr s)"
  by (rule builds_from_literal [of 0]) simp

lemma builds_from_bool: "builds_from h (literal (VBool b)) (JBool b)"
  by (rule builds_from_literal [of 0]) simp

text \<open>
  The function on the heap does what the function on trees does: it returns a reference
  to the tree that one returns, and throws where that one throws.
\<close>

lemma createLibraryReferenceStructure_on_heap_builds:
  assumes e: "readback n h extra = Some j"
    and r: "createLibraryReferenceStructure libName j = Inr r"
  shows "builds_from h (createLibraryReferenceStructure_on_heap libName extra) r"
proof -
  from r obtain xs where xs: "spread (nullish j (JArr [])) = Inr xs"
    and r': "r = JObj
            [(''type'', JStr ''category''),
             (''label'', JStr ''Reference''),
             (''link'', JObj
                [(''type'', JStr ''doc''),
                 (''id'', JStr (''standard-library/'' @ libName @ ''/reference/index''))]),
             (''items'', JArr (concat
                [[JObj
                   [(''type'', JStr ''autogenerated''),
                    (''dirName'', JStr (''standard-library/'' @ libName @ ''/reference''))]],
                 xs]))]"
    by (auto simp: createLibraryReferenceStructure_def split: sum.splits)
  have "builds_from h (array_literal []) (JArr (concat []))"
    by (rule builds_from_array) simp
  then have "builds_from h (array_literal []) (JArr [])" by simp
  with builds_from_literal [OF e]
  have c: "builds_from h (coalesce (literal extra) (array_literal [])) (nullish j (JArr []))"
    by (rule builds_from_coalesce)
  have "builds_from h
      (array_literal
         [Element (object_literal
            [(''type'', literal (VStr ''autogenerated'')),
             (''dirName'', literal (VStr (''standard-library/'' @ libName @ ''/reference'')))]),
          Spread (coalesce (literal extra) (array_literal []))])
      (JArr (concat
         [[JObj
            [(''type'', JStr ''autogenerated''),
             (''dirName'', JStr (''standard-library/'' @ libName @ ''/reference''))]],
          xs]))"
  proof (rule builds_from_array)
    have "builds_from h
        (object_literal
           [(''type'', literal (VStr ''autogenerated'')),
            (''dirName'', literal (VStr (''standard-library/'' @ libName @ ''/reference'')))])
        (JObj
           [(''type'', JStr ''autogenerated''),
            (''dirName'', JStr (''standard-library/'' @ libName @ ''/reference''))])"
      by (rule builds_from_object) (simp add: builds_from_str)
    with c xs show "list_all2 (element_builds h)
        [Element (object_literal
            [(''type'', literal (VStr ''autogenerated'')),
             (''dirName'', literal (VStr (''standard-library/'' @ libName @ ''/reference'')))]),
          Spread (coalesce (literal extra) (array_literal []))]
        [[JObj
            [(''type'', JStr ''autogenerated''),
             (''dirName'', JStr (''standard-library/'' @ libName @ ''/reference''))]],
          xs]"
      by auto
  qed
  moreover have "builds_from h
      (object_literal
         [(''type'', literal (VStr ''doc'')),
          (''id'', literal (VStr (''standard-library/'' @ libName @ ''/reference/index'')))])
      (JObj
         [(''type'', JStr ''doc''),
          (''id'', JStr (''standard-library/'' @ libName @ ''/reference/index''))])"
    by (rule builds_from_object) (simp add: builds_from_str)
  ultimately show ?thesis
    unfolding r' createLibraryReferenceStructure_on_heap_def
    by (intro builds_from_object) (simp add: builds_from_str)
qed

lemma createLibraryReferenceStructure_on_heap_throws:
  assumes e: "readback n h extra = Some j"
    and r: "createLibraryReferenceStructure libName j = Inl x"
  shows "createLibraryReferenceStructure_on_heap libName extra h = Inl x"
proof -
  from r have sp: "spread (nullish j (JArr [])) = Inl x"
    by (auto simp: createLibraryReferenceStructure_def split: sum.splits)
  then have nn: "j \<noteq> JUndefined" "j \<noteq> JNull" by auto
  with e have vn: "extra \<noteq> VUndefined" "extra \<noteq> VNull" by auto
  from nn sp have "spread j = Inl x" by (cases j) auto
  from iterate_throws [OF readback_append [OF e] this]
  have "iterate extra (h @ g) = Inl x" for g .
  with vn show ?thesis
    by (cases extra)
      (simp_all add: createLibraryReferenceStructure_on_heap_def object_literal_def
        array_literal_def literal_def alloc_def coalesce_def del: iterate.simps)
qed

text \<open>The module on the heap builds the tree that \<^const>\<open>sidebars\<close> is.\<close>

lemma reference_call_builds:
  assumes a: "builds_from h arg ja"
    and r: "createLibraryReferenceStructure libName ja = Inr r"
  shows "builds_from h (call (createLibraryReferenceStructure_on_heap libName) arg) r"
  using a
proof (rule builds_from_call)
  fix h' v n
  assume "readback n h' v = Some ja"
  then show "builds_from h' (createLibraryReferenceStructure_on_heap libName v) r"
    using r by (rule createLibraryReferenceStructure_on_heap_builds)
qed

lemma sidebars_on_heap_builds:
  "\<exists>s. sidebars = Inr s \<and> (\<forall>h. builds_from h sidebars_on_heap s)"
proof -
  obtain r1 where r1: "createLibraryReferenceStructure ''rest'' JUndefined = Inr r1"
    by (simp add: createLibraryReferenceStructure_def)
  obtain r2 where r2: "createLibraryReferenceStructure ''openapi''
      (JArr [JStr ''standard-library/openapi/diagnostics'']) = Inr r2"
    by (simp add: createLibraryReferenceStructure_def)
  have "builds_from h (literal VUndefined) JUndefined" for h
    by (rule builds_from_literal [of 0]) simp
  then have c1: "builds_from h
      (call (createLibraryReferenceStructure_on_heap ''rest'') (literal VUndefined)) r1" for h
    using r1 by (rule reference_call_builds)
  have "builds_from h
      (array_literal [Element (literal (VStr ''standard-library/openapi/diagnostics''))])
      (JArr [JStr ''standard-library/openapi/diagnostics''])" for h
    by (rule builds_from_plain_array) (simp add: builds_from_str)
  then have c2: "builds_from h
      (call (createLibraryReferenceStructure_on_heap ''openapi'')
         (array_literal [Element (literal (VStr ''standard-library/openapi/diagnostics''))])) r2"
    for h
    using r2 by (rule reference_call_builds)
  show ?thesis
    unfolding sidebars_def r1 r2 sum.case sidebars_on_heap_def
    by (auto intro!: builds_from_object builds_from_plain_array builds_from_str
        builds_from_bool c1 c2)
qed

text \<open>Two runs that build the same tree, read back with one depth.\<close>

lemma builds_from_two_runs:
  assumes "builds_from h1 e1 j" and "builds_from h2 e2 j"
  shows "\<exists>v1 g1 v2 g2 n.
      e1 h1 = Inr (v1, h1 @ g1) \<and> e2 h2 = Inr (v2, h2 @ g2)
    \<and> readback n (h1 @ g1) v1 = Some j \<and> readback n (h2 @ g2) v2 = Some j"
proof -
  from assms(1) [unfolded builds_from_def, rule_format, of "[]"]
  obtain v1 g1 n1 where 1: "e1 h1 = Inr (v1, h1 @ g1)" "readback n1 (h1 @ g1) v1 = Some j"
    by auto
  from assms(2) [unfolded builds_from_def, rule_format, of "[]"]
  obtain v2 g2 n2 where 2: "e2 h2 = Inr (v2, h2 @ g2)" "readback n2 (h2 @ g2) v2 = Some j"
    by auto
  have "readback (max n1 n2) (h1 @ g1) v1 = Some j"
    using 1(2) by (rule readback_fuel) simp
  moreover have "readback (max n1 n2) (h2 @ g2) v2 = Some j"
    using 2(2) by (rule readback_fuel) simp
  ultimately show ?thesis
    using 1(1) 2(1)
    by (intro exI [of _ v1] exI [of _ g1] exI [of _ v2] exI [of _ g2] exI [of _ "max n1 n2"] conjI)
qed

text \<open>
  C6. Construction is deterministic and has no effect but allocation. Evaluated in any
  two heaps, the module returns in both, each heap is extended by the new objects and
  none of its objects changes, and the two references returned stand for the same tree:
  the value \<^const>\<open>sidebars\<close> of the first model. Likewise for two calls of
  \<^verbatim>\<open>createLibraryReferenceStructure\<close> with the same library name whose arguments
  \<^verbatim>\<open>extra\<close> stand for the same tree, each in its heap: both throw the same exception,
  or both return, extend their heaps, and the references returned stand for the same
  tree, the result of the first model on the tree of the argument. Nothing else of the
  heaps enters the result.
\<close>

theorem sidebar_construction_deterministic:
  "(\<exists>s. sidebars = Inr s \<and>
      (\<exists>v1 g1 v2 g2 m.
          sidebars_on_heap h1 = Inr (v1, h1 @ g1) \<and> sidebars_on_heap h2 = Inr (v2, h2 @ g2)
        \<and> readback m (h1 @ g1) v1 = Some s \<and> readback m (h2 @ g2) v2 = Some s))
   \<and> (readback n h1 e1 = Some j \<and> readback n h2 e2 = Some j \<longrightarrow>
        (case createLibraryReferenceStructure libName j of
           Inl x \<Rightarrow>
             createLibraryReferenceStructure_on_heap libName e1 h1 = Inl x
           \<and> createLibraryReferenceStructure_on_heap libName e2 h2 = Inl x
         | Inr r \<Rightarrow>
             (\<exists>v1 g1 v2 g2 m.
                 createLibraryReferenceStructure_on_heap libName e1 h1 = Inr (v1, h1 @ g1)
               \<and> createLibraryReferenceStructure_on_heap libName e2 h2 = Inr (v2, h2 @ g2)
               \<and> readback m (h1 @ g1) v1 = Some r \<and> readback m (h2 @ g2) v2 = Some r)))"
proof (intro conjI impI)
  from sidebars_on_heap_builds obtain s where s: "sidebars = Inr s"
    and b: "builds_from h1 sidebars_on_heap s" "builds_from h2 sidebars_on_heap s"
    by blast
  from builds_from_two_runs [OF b] s
  show "\<exists>s. sidebars = Inr s \<and>
      (\<exists>v1 g1 v2 g2 m.
          sidebars_on_heap h1 = Inr (v1, h1 @ g1) \<and> sidebars_on_heap h2 = Inr (v2, h2 @ g2)
        \<and> readback m (h1 @ g1) v1 = Some s \<and> readback m (h2 @ g2) v2 = Some s)"
    by (intro exI [of _ s] conjI)
next
  assume a: "readback n h1 e1 = Some j \<and> readback n h2 e2 = Some j"
  then have a1: "readback n h1 e1 = Some j" and a2: "readback n h2 e2 = Some j"
    by simp_all
  show "case createLibraryReferenceStructure libName j of
           Inl x \<Rightarrow>
             createLibraryReferenceStructure_on_heap libName e1 h1 = Inl x
           \<and> createLibraryReferenceStructure_on_heap libName e2 h2 = Inl x
         | Inr r \<Rightarrow>
             (\<exists>v1 g1 v2 g2 m.
                 createLibraryReferenceStructure_on_heap libName e1 h1 = Inr (v1, h1 @ g1)
               \<and> createLibraryReferenceStructure_on_heap libName e2 h2 = Inr (v2, h2 @ g2)
               \<and> readback m (h1 @ g1) v1 = Some r \<and> readback m (h2 @ g2) v2 = Some r)"
  proof (cases "createLibraryReferenceStructure libName j")
    case (Inl x)
    from a1 Inl have "createLibraryReferenceStructure_on_heap libName e1 h1 = Inl x"
      by (rule createLibraryReferenceStructure_on_heap_throws)
    moreover from a2 Inl have "createLibraryReferenceStructure_on_heap libName e2 h2 = Inl x"
      by (rule createLibraryReferenceStructure_on_heap_throws)
    ultimately show ?thesis unfolding Inl by simp
  next
    case (Inr r)
    from a1 Inr have "builds_from h1 (createLibraryReferenceStructure_on_heap libName e1) r"
      by (rule createLibraryReferenceStructure_on_heap_builds)
    moreover
    from a2 Inr have "builds_from h2 (createLibraryReferenceStructure_on_heap libName e2) r"
      by (rule createLibraryReferenceStructure_on_heap_builds)
    ultimately show ?thesis unfolding Inr sum.case by (rule builds_from_two_runs)
  qed
qed

theorem sidebar_construction_deterministic_witness:
  "readback 1 [CArr [VStr ''standard-library/openapi/diagnostics'']] (VRef 0)
     = Some (JArr [JStr ''standard-library/openapi/diagnostics''])
   \<and> readback 1 [CObj [], CArr [VStr ''standard-library/openapi/diagnostics'']] (VRef 1)
     = Some (JArr [JStr ''standard-library/openapi/diagnostics''])
   \<and> (\<exists>r v1 g1 v2 g2 m.
         createLibraryReferenceStructure ''openapi''
           (JArr [JStr ''standard-library/openapi/diagnostics'']) = Inr r
       \<and> createLibraryReferenceStructure_on_heap ''openapi'' (VRef 0)
           [CArr [VStr ''standard-library/openapi/diagnostics'']]
           = Inr (v1, [CArr [VStr ''standard-library/openapi/diagnostics'']] @ g1)
       \<and> createLibraryReferenceStructure_on_heap ''openapi'' (VRef 1)
           [CObj [], CArr [VStr ''standard-library/openapi/diagnostics'']]
           = Inr (v2, [CObj [], CArr [VStr ''standard-library/openapi/diagnostics'']] @ g2)
       \<and> v1 \<noteq> v2
       \<and> readback m ([CArr [VStr ''standard-library/openapi/diagnostics'']] @ g1) v1 = Some r
       \<and> readback m ([CObj [], CArr [VStr ''standard-library/openapi/diagnostics'']] @ g2) v2
           = Some r)"
proof -
  let ?d = "''standard-library/openapi/diagnostics''"
  let ?h1 = "[CArr [VStr ?d]]"
  let ?h2 = "[CObj [], CArr [VStr ?d]]"
  have 1: "readback 1 ?h1 (VRef 0) = Some (JArr [JStr ?d])"
    by simp
  have 2: "readback 1 ?h2 (VRef 1) = Some (JArr [JStr ?d])"
    by simp
  obtain r where r: "createLibraryReferenceStructure ''openapi'' (JArr [JStr ?d]) = Inr r"
    by (simp add: createLibraryReferenceStructure_def)
  have "readback 1 ?h1 (VRef 0) = Some (JArr [JStr ?d])
      \<and> readback 1 ?h2 (VRef 1) = Some (JArr [JStr ?d]) \<longrightarrow>
      (case createLibraryReferenceStructure ''openapi'' (JArr [JStr ?d]) of
         Inl x \<Rightarrow>
           createLibraryReferenceStructure_on_heap ''openapi'' (VRef 0) ?h1 = Inl x
         \<and> createLibraryReferenceStructure_on_heap ''openapi'' (VRef 1) ?h2 = Inl x
       | Inr r \<Rightarrow>
           (\<exists>v1 g1 v2 g2 m.
               createLibraryReferenceStructure_on_heap ''openapi'' (VRef 0) ?h1 = Inr (v1, ?h1 @ g1)
             \<and> createLibraryReferenceStructure_on_heap ''openapi'' (VRef 1) ?h2 = Inr (v2, ?h2 @ g2)
             \<and> readback m (?h1 @ g1) v1 = Some r \<and> readback m (?h2 @ g2) v2 = Some r))"
    by (rule conjunct2 [OF sidebar_construction_deterministic])
  from this 1 2 have "case createLibraryReferenceStructure ''openapi'' (JArr [JStr ?d]) of
         Inl x \<Rightarrow>
           createLibraryReferenceStructure_on_heap ''openapi'' (VRef 0) ?h1 = Inl x
         \<and> createLibraryReferenceStructure_on_heap ''openapi'' (VRef 1) ?h2 = Inl x
       | Inr r \<Rightarrow>
           (\<exists>v1 g1 v2 g2 m.
               createLibraryReferenceStructure_on_heap ''openapi'' (VRef 0) ?h1 = Inr (v1, ?h1 @ g1)
             \<and> createLibraryReferenceStructure_on_heap ''openapi'' (VRef 1) ?h2 = Inr (v2, ?h2 @ g2)
             \<and> readback m (?h1 @ g1) v1 = Some r \<and> readback m (?h2 @ g2) v2 = Some r)"
    by (rule mp [OF _ conjI])
  then have "\<exists>v1 g1 v2 g2 m.
               createLibraryReferenceStructure_on_heap ''openapi'' (VRef 0) ?h1 = Inr (v1, ?h1 @ g1)
             \<and> createLibraryReferenceStructure_on_heap ''openapi'' (VRef 1) ?h2 = Inr (v2, ?h2 @ g2)
             \<and> readback m (?h1 @ g1) v1 = Some r \<and> readback m (?h2 @ g2) v2 = Some r"
    unfolding r by (simp only: sum.case)
  then obtain v1 g1 v2 g2 m where
    c: "createLibraryReferenceStructure_on_heap ''openapi'' (VRef 0) ?h1 = Inr (v1, ?h1 @ g1)"
      "createLibraryReferenceStructure_on_heap ''openapi'' (VRef 1) ?h2 = Inr (v2, ?h2 @ g2)"
      "readback m (?h1 @ g1) v1 = Some r"
      "readback m (?h2 @ g2) v2 = Some r"
    by (elim exE conjE)
  have "map_sum id fst (createLibraryReferenceStructure_on_heap ''openapi'' (VRef 0) ?h1)
      = Inr (VRef 4)"
    by (simp add: createLibraryReferenceStructure_on_heap_def object_literal_def
        array_literal_def literal_def alloc_def coalesce_def)
  with c(1) have v1: "v1 = VRef 4" by simp
  have "map_sum id fst (createLibraryReferenceStructure_on_heap ''openapi'' (VRef 1) ?h2)
      = Inr (VRef 5)"
    by (simp add: createLibraryReferenceStructure_on_heap_def object_literal_def
        array_literal_def literal_def alloc_def coalesce_def)
  with c(2) have v2: "v2 = VRef 5" by simp
  from v1 v2 have "v1 \<noteq> v2" by simp
  with 1 2 r c show ?thesis
    by (intro conjI exI [of _ r] exI [of _ v1] exI [of _ g1] exI [of _ v2] exI [of _ g2]
        exI [of _ m])
qed

end
